theory Spec2Isabelle
  imports Complex_Main "HOL-Library.Word"
begin

section \<open>Data model of the store module\<close>

text \<open>
  The store module keeps two collections in the browser's key-value storage, one per key.
  A JavaScript \<open>number\<close> is modelled by the exact values the data model documents:
  quantities are integers (\<open>int\<close>), prices and totals are rationals (\<open>rat\<close>).
  A \<open>createdAt\<close> timestamp is the number of milliseconds since the epoch that its ISO string
  denotes (\<open>toISOString\<close> and \<open>new Date(string)\<close> are inverse on it).

  A JavaScript string is a sequence of UTF-16 code units. The customer name is the one
  string whose characters the code looks at (it is trimmed), so it is the list of its code
  units, a \<open>js_string\<close>. Ids, item names and the fixed texts of the messages are only
  compared for equality, tested for emptiness and copied; they are \<open>string\<close>s.
\<close>

type_synonym js_string = "16 word list"

record InventoryItem =
  item_id :: string
  item_name :: string
  item_quantity :: int
  item_price :: rat
  item_createdAt :: int

text \<open>One entry of \<open>Invoice.items\<close>.\<close>

record InvoiceLine =
  itemId :: string
  itemName :: string
  quantity :: int
  price :: rat
  total :: rat

record Invoice =
  inv_id :: string
  customerName :: js_string
  items :: "InvoiceLine list"
  inv_total :: rat
  inv_createdAt :: int

text \<open>\<open>Partial<InventoryItem>\<close>: every field may be left out.\<close>

record InventoryUpdates =
  upd_id :: "string option"
  upd_name :: "string option"
  upd_quantity :: "int option"
  upd_price :: "rat option"
  upd_createdAt :: "int option"

text \<open>
  \<open>localStorage\<close>, restricted to the two keys the module uses. A key that was never written
  is \<open>None\<close>; a written key holds the collection that \<open>JSON.parse\<close> gives back.
\<close>

record storage =
  INVENTORY_KEY :: "InventoryItem list option"
  INVOICES_KEY :: "Invoice list option"

definition empty_storage :: storage where
  "empty_storage = \<lparr>INVENTORY_KEY = None, INVOICES_KEY = None\<rparr>"

section \<open>Inventory functions\<close>

definition getInventory :: "storage \<Rightarrow> InventoryItem list" where
  "getInventory st = (case INVENTORY_KEY st of Some data \<Rightarrow> data | None \<Rightarrow> [])"

definition saveInventory :: "InventoryItem list \<Rightarrow> storage \<Rightarrow> storage" where
  "saveInventory its st = st\<lparr>INVENTORY_KEY := Some its\<rparr>"

text \<open>
  \<open>crypto.randomUUID()\<close> and \<open>new Date()\<close> are read from the environment: the model takes
  their results as the arguments \<open>uuid\<close> and \<open>now\<close>. The function returns the created item
  together with the storage after the write.
\<close>

definition addInventoryItem ::
  "string \<Rightarrow> int \<Rightarrow> rat \<Rightarrow> string \<Rightarrow> int \<Rightarrow> storage \<Rightarrow> InventoryItem \<times> storage" where
  "addInventoryItem nm qty pr uuid now st =
     (let its = getInventory st;
          newItem = \<lparr>item_id = uuid, item_name = nm, item_quantity = qty,
                     item_price = pr, item_createdAt = now\<rparr>
      in (newItem, saveInventory (its @ [newItem]) st))"

text \<open>\<open>Array.prototype.findIndex\<close>, with \<open>None\<close> for \<open>-1\<close>.\<close>

fun findIndex :: "('a \<Rightarrow> bool) \<Rightarrow> 'a list \<Rightarrow> nat option" where
  "findIndex P [] = None"
| "findIndex P (x # xs) = (if P x then Some 0 else map_option Suc (findIndex P xs))"

text \<open>The object spread \<open>{ ...item, ...updates }\<close>: a field of the patch wins when present.\<close>

definition merge_updates :: "InventoryItem \<Rightarrow> InventoryUpdates \<Rightarrow> InventoryItem" where
  "merge_updates it u =
     \<lparr>item_id = (case upd_id u of Some v \<Rightarrow> v | None \<Rightarrow> item_id it),
      item_name = (case upd_name u of Some v \<Rightarrow> v | None \<Rightarrow> item_name it),
      item_quantity = (case upd_quantity u of Some v \<Rightarrow> v | None \<Rightarrow> item_quantity it),
      item_price = (case upd_price u of Some v \<Rightarrow> v | None \<Rightarrow> item_price it),
      item_createdAt = (case upd_createdAt u of Some v \<Rightarrow> v | None \<Rightarrow> item_createdAt it)\<rparr>"

definition updateInventoryItem :: "string \<Rightarrow> InventoryUpdates \<Rightarrow> storage \<Rightarrow> storage" where
  "updateInventoryItem ident updates st =
     (let its = getInventory st
      in case findIndex (\<lambda>it. item_id it = ident) its of
           Some index \<Rightarrow> saveInventory (its[index := merge_updates (its ! index) updates]) st
         | None \<Rightarrow> st)"

definition deleteInventoryItem :: "string \<Rightarrow> storage \<Rightarrow> storage" where
  "deleteInventoryItem ident st =
     saveInventory (filter (\<lambda>it. item_id it \<noteq> ident) (getInventory st)) st"

text \<open>
  \<open>items.find\<close> returns a reference to the first matching element of the array, and the
  assignment to \<open>item.quantity\<close> mutates that element in place before the array is saved.
  The reference is the position of the element, so the model updates the list there.
\<close>

definition reduceInventoryQuantity :: "string \<Rightarrow> int \<Rightarrow> storage \<Rightarrow> storage" where
  "reduceInventoryQuantity ident amount st =
     (let its = getInventory st
      in case findIndex (\<lambda>i. item_id i = ident) its of
           Some k \<Rightarrow>
             saveInventory
               (its[k := (its ! k)\<lparr>item_quantity := max 0 (item_quantity (its ! k) - amount)\<rparr>]) st
         | None \<Rightarrow> st)"

section \<open>Invoice functions\<close>

definition getInvoices :: "storage \<Rightarrow> Invoice list" where
  "getInvoices st = (case INVOICES_KEY st of Some data \<Rightarrow> data | None \<Rightarrow> [])"

definition saveInvoices :: "Invoice list \<Rightarrow> storage \<Rightarrow> storage" where
  "saveInvoices invs st = st\<lparr>INVOICES_KEY := Some invs\<rparr>"



text \<open>
  \<open>createInvoice\<close> takes the invoice without \<open>id\<close> and \<open>createdAt\<close> (customer name, lines
  and total are the caller's), and returns the new invoice and the storage it leaves.
\<close>

definition createInvoice ::
  "js_string \<Rightarrow> InvoiceLine list \<Rightarrow> rat \<Rightarrow> string \<Rightarrow> int \<Rightarrow> storage \<Rightarrow> Invoice \<times> storage" where
  "createInvoice cust lines tot uuid now st =
     (let invoices = getInvoices st;
          newInvoice = \<lparr>inv_id = uuid, customerName = cust, items = lines,
                        inv_total = tot, inv_createdAt = now\<rparr>;
          st1 = saveInvoices (invoices @ [newInvoice]) st
      in (newInvoice,
          foldl (\<lambda>s l. reduceInventoryQuantity (itemId l) (quantity l) s) st1 lines))"

definition deleteInvoice :: "string \<Rightarrow> storage \<Rightarrow> storage" where
  "deleteInvoice ident st =
     saveInvoices (filter (\<lambda>inv. inv_id inv \<noteq> ident) (getInvoices st)) st"

section \<open>The submit handler of the invoice page\<close>








section \<open>Analytics helpers\<close>

text \<open>
  \<open>Date.prototype.toDateString\<close> depends on the local time zone of the browser; it is the
  parameter \<open>toDateString\<close>, from a timestamp to the text of its calendar day.
\<close>

definition getTodaySales :: "(int \<Rightarrow> string) \<Rightarrow> int \<Rightarrow> storage \<Rightarrow> rat" where
  "getTodaySales toDateString now st =
     (let today = toDateString now
      in foldl (\<lambda>sum inv. sum + inv_total inv) 0
           (filter (\<lambda>inv. toDateString (inv_createdAt inv) = today) (getInvoices st)))"

definition getLastWeekSales :: "int \<Rightarrow> storage \<Rightarrow> rat" where
  "getLastWeekSales now st =
     (let oneWeekAgo = now - 7 * 24 * 60 * 60 * 1000;
          twoWeeksAgo = now - 14 * 24 * 60 * 60 * 1000
      in foldl (\<lambda>sum inv. sum + inv_total inv) 0
           (filter (\<lambda>inv. inv_createdAt inv \<ge> twoWeeksAgo \<and> inv_createdAt inv < oneWeekAgo)
              (getInvoices st)))"

definition getThisWeekSales :: "int \<Rightarrow> storage \<Rightarrow> rat" where
  "getThisWeekSales now st =
     (let oneWeekAgo = now - 7 * 24 * 60 * 60 * 1000
      in foldl (\<lambda>sum inv. sum + inv_total inv) 0
           (filter (\<lambda>inv. inv_createdAt inv \<ge> oneWeekAgo) (getInvoices st)))"

text \<open>
  \<open>productSales\<close> is an object keyed by item id. Item ids are UUIDs, which are not array
  indices, so \<open>Object.values\<close> lists the entries in the order the keys were first written:
  the object is an association list with new keys added at the end.
\<close>

record ProductSale =
  sale_name :: string
  sale_quantity :: int

type_synonym productSales = "(string \<times> ProductSale) list"

text \<open>\<open>productSales[key].quantity += q\<close> on an entry that is there.\<close>

fun add_quantity :: "string \<Rightarrow> int \<Rightarrow> productSales \<Rightarrow> productSales" where
  "add_quantity key q [] = []"
| "add_quantity key q ((k, p) # ps) =
     (if k = key then (k, p\<lparr>sale_quantity := sale_quantity p + q\<rparr>) # ps
      else (k, p) # add_quantity key q ps)"

text \<open>The body of the inner \<open>forEach\<close>.\<close>

definition record_line :: "productSales \<Rightarrow> InvoiceLine \<Rightarrow> productSales" where
  "record_line ps l =
     (let ps' = (if map_of ps (itemId l) = None
                 then ps @ [(itemId l, \<lparr>sale_name = itemName l, sale_quantity = 0\<rparr>)]
                 else ps)
      in add_quantity (itemId l) (quantity l) ps')"

definition collect_sales :: "Invoice list \<Rightarrow> productSales" where
  "collect_sales invoices =
     foldl (\<lambda>ps inv. foldl record_line ps (items inv)) [] invoices"

definition getTopSellingProduct :: "storage \<Rightarrow> ProductSale option" where
  "getTopSellingProduct st =
     (let invoices = getInvoices st;
          products = map snd (collect_sales invoices)
      in case products of
           [] \<Rightarrow> None
         | first # others \<Rightarrow>
             Some (foldl (\<lambda>top product.
                     if sale_quantity product > sale_quantity top then product else top)
                   first others))"

definition getLowStockItems :: "storage \<Rightarrow> InventoryItem list" where
  "getLowStockItems st = filter (\<lambda>it. item_quantity it < 5) (getInventory st)"

text \<open>
  An insight is one of seven template strings; the constructor carries the values the
  template interpolates (the percentage before \<open>toFixed(0)\<close> prints it, the joined names
  and the count of further items, the best seller, today's amount before
  \<open>toLocaleString\<close> prints it).
\<close>

datatype insight =
    Sales_Up rat
  | Sales_Decreased
  | Steady_Sales
  | Low_Stock_Alert string "nat option"
  | Best_Seller string int
  | Sales_Today rat
  | Welcome

text \<open>\<open>Array.prototype.join(', ')\<close>.\<close>

fun join_comma :: "string list \<Rightarrow> string" where
  "join_comma [] = []"
| "join_comma [x] = x"
| "join_comma (x # y # ys) = x @ '', '' @ join_comma (y # ys)"

text \<open>
  Each helper reads the clock itself: \<open>now1\<close>, \<open>now2\<close> and \<open>now3\<close> are the times that
  \<open>getThisWeekSales\<close>, \<open>getLastWeekSales\<close> and \<open>getTodaySales\<close> see.
\<close>

definition generateInsights ::
  "(int \<Rightarrow> string) \<Rightarrow> int \<Rightarrow> int \<Rightarrow> int \<Rightarrow> storage \<Rightarrow> insight list" where
  "generateInsights toDateString now1 now2 now3 st =
     (let thisWeekSales = getThisWeekSales now1 st;
          lastWeekSales = getLastWeekSales now2 st;
          lowStockItems = getLowStockItems st;
          topProduct = getTopSellingProduct st;
          todaySales = getTodaySales toDateString now3 st;
          insights1 =
            (if thisWeekSales > lastWeekSales \<and> lastWeekSales > 0
             then [Sales_Up ((thisWeekSales - lastWeekSales) / lastWeekSales * 100)]
             else if thisWeekSales < lastWeekSales \<and> lastWeekSales > 0 then [Sales_Decreased]
             else if thisWeekSales > 0 then [Steady_Sales]
             else []);
          insights2 =
            (if length lowStockItems > 0
             then insights1 @
                  [Low_Stock_Alert (join_comma (map item_name (take 2 lowStockItems)))
                     (if length lowStockItems > 2 then Some (length lowStockItems - 2) else None)]
             else insights1);
          insights3 =
            (case topProduct of
               Some p \<Rightarrow>
                 if sale_quantity p > 3
                 then insights2 @ [Best_Seller (sale_name p) (sale_quantity p)]
                 else insights2
             | None \<Rightarrow> insights2);
          insights4 =
            (if todaySales > 0 then insights3 @ [Sales_Today todaySales] else insights3)
      in if length insights4 = 0 then insights4 @ [Welcome] else insights4)"

section \<open>Sequences of repository calls\<close>

text \<open>
  A client of the store module calls its exported mutators one after the other. An
  \<open>operation\<close> is one such call with its arguments (and, for the two creating calls, the
  UUID and the time the call draws).
\<close>

datatype operation =
    Add string int rat string int
  | Update string InventoryUpdates
  | Delete string
  | ReduceQuantity string int
  | CreateInvoice js_string "InvoiceLine list" rat string int
  | DeleteInvoice string

fun apply_operation :: "storage \<Rightarrow> operation \<Rightarrow> storage" where
  "apply_operation st (Add nm qty pr uuid now) = snd (addInventoryItem nm qty pr uuid now st)"
| "apply_operation st (Update ident updates) = updateInventoryItem ident updates st"
| "apply_operation st (Delete ident) = deleteInventoryItem ident st"
| "apply_operation st (ReduceQuantity ident amount) = reduceInventoryQuantity ident amount st"
| "apply_operation st (CreateInvoice cust lines tot uuid now) =
     snd (createInvoice cust lines tot uuid now st)"
| "apply_operation st (DeleteInvoice ident) = deleteInvoice ident st"

text \<open>
  The check the inventory page makes before it calls \<open>addInventoryItem\<close> or
  \<open>updateInventoryItem\<close>: it turns away a quantity below 0.
\<close>

fun quantity_checked :: "operation \<Rightarrow> bool" where
  "quantity_checked (Add nm qty pr uuid now) = (\<not> qty < 0)"
| "quantity_checked (Update ident updates) =
     (case upd_quantity updates of Some qty \<Rightarrow> \<not> qty < 0 | None \<Rightarrow> True)"
| "quantity_checked _ = True"

definition quantities_nonneg :: "storage \<Rightarrow> bool" where
  "quantities_nonneg st = list_all (\<lambda>it. 0 \<le> item_quantity it) (getInventory st)"

section \<open>Example data\<close>

definition widget :: InventoryItem where
  "widget = \<lparr>item_id = ''w1'', item_name = ''Widget'', item_quantity = 3,
              item_price = 50, item_createdAt = 0\<rparr>"

definition gadget :: InventoryItem where
  "gadget = \<lparr>item_id = ''g1'', item_name = ''Gadget'', item_quantity = 8,
              item_price = 20, item_createdAt = 1\<rparr>"

definition two_item_storage :: storage where
  "two_item_storage = \<lparr>INVENTORY_KEY = Some [gadget, widget], INVOICES_KEY = None\<rparr>"

definition widget10 :: InventoryItem where
  "widget10 = \<lparr>item_id = ''w1'', item_name = ''Widget'', item_quantity = 10,
                item_price = 50, item_createdAt = 0\<rparr>"

definition widget_line :: InvoiceLine where
  "widget_line = \<lparr>itemId = ''w1'', itemName = ''Widget'', quantity = 3, price = 50, total = 150\<rparr>"

text \<open>
  The customer names \<open>Acme\<close> and \<open>Bolt\<close>, the name \<open>Acme\<close> as typed with a space before
  and a no-break space after it, and a name that is one no-break space.
\<close>

definition acme :: js_string where
  "acme = [0x41, 0x63, 0x6D, 0x65]"

definition bolt :: js_string where
  "bolt = [0x42, 0x6F, 0x6C, 0x74]"





definition acme_invoice :: Invoice where
  "acme_invoice = \<lparr>inv_id = ''i1'', customerName = acme, items = [widget_line],
                    inv_total = 150, inv_createdAt = 5\<rparr>"

text \<open>The storage after a sale of 3 of the 10 widgets to Acme.\<close>

definition acme_storage :: storage where
  "acme_storage = \<lparr>INVENTORY_KEY = Some [widget10\<lparr>item_quantity := 7\<rparr>],
                    INVOICES_KEY = Some [acme_invoice]\<rparr>"

text \<open>
  The end-to-end scenario of the specification as a sequence of calls: add 10 widgets, sell
  3 to Acme, delete that invoice, sell 5 more, then edit the stock to 4 and reduce it by 10.
\<close>

definition scenario_ops :: "operation list" where
  "scenario_ops =
     [Add ''Widget'' 10 50 ''w1'' 0,
      CreateInvoice acme [widget_line] 150 ''i1'' 5,
      DeleteInvoice ''i1'',
      CreateInvoice acme [widget_line\<lparr>quantity := 5, total := 250\<rparr>] 250 ''i2'' 6,
      Update ''w1'' \<lparr>upd_id = None, upd_name = None, upd_quantity = Some 4,
                     upd_price = None, upd_createdAt = None\<rparr>,
      ReduceQuantity ''w1'' 10]"




text \<open>
  Two products, each sold 5 times in an invoice of its own, the widget first.
\<close>

definition tie_storage :: storage where
  "tie_storage =
     \<lparr>INVENTORY_KEY = Some [gadget, widget],
      INVOICES_KEY = Some
        [\<lparr>inv_id = ''i1'', customerName = acme,
          items = [\<lparr>itemId = ''w1'', itemName = ''Widget'', quantity = 5, price = 50,
                    total = 250\<rparr>],
          inv_total = 250, inv_createdAt = 5\<rparr>,
         \<lparr>inv_id = ''i2'', customerName = bolt,
          items = [\<lparr>itemId = ''g1'', itemName = ''Gadget'', quantity = 5, price = 20,
                    total = 100\<rparr>],
          inv_total = 100, inv_createdAt = 6\<rparr>]\<rparr>"

section \<open>Facts about \<open>findIndex\<close>\<close>

lemma findIndex_None_iff: "findIndex P xs = None \<longleftrightarrow> list_all (\<lambda>x. \<not> P x) xs"
  by (induction xs) auto

lemma findIndex_Some_bound: "findIndex P xs = Some k \<Longrightarrow> k < length xs"
  by (induction xs arbitrary: k) (auto split: if_splits)

lemma findIndex_Some_holds: "findIndex P xs = Some k \<Longrightarrow> P (xs ! k)"
  by (induction xs arbitrary: k) (auto split: if_splits)

lemma findIndex_Some_first: "findIndex P xs = Some k \<Longrightarrow> j < k \<Longrightarrow> \<not> P (xs ! j)"
proof (induction xs arbitrary: k j)
  case Nil
  then show ?case by simp
next
  case (Cons x xs)
  show ?case
  proof (cases "P x")
    case True
    with Cons.prems show ?thesis by simp
  next
    case False
    with Cons.prems obtain k' where k': "findIndex P xs = Some k'" "k = Suc k'"
      by auto
    show ?thesis
    proof (cases j)
      case 0
      with False show ?thesis by simp
    next
      case (Suc j')
      with Cons.prems(2) k' have "j' < k'" by simp
      with Cons.IH [OF k'(1)] Suc show ?thesis by simp
    qed
  qed
qed

section \<open>Reading back what was saved\<close>

lemma getInventory_saveInventory: "getInventory (saveInventory its st) = its"
  by (simp add: getInventory_def saveInventory_def)

lemma INVOICES_KEY_saveInventory: "INVOICES_KEY (saveInventory its st) = INVOICES_KEY st"
  by (simp add: saveInventory_def)

lemma reduceInventoryQuantity_found:
  "findIndex (\<lambda>i. item_id i = ident) (getInventory st) = Some k \<Longrightarrow>
   reduceInventoryQuantity ident amount st =
     saveInventory ((getInventory st)
       [k := (getInventory st ! k)
          \<lparr>item_quantity := max 0 (item_quantity (getInventory st ! k) - amount)\<rparr>]) st"
  by (simp add: reduceInventoryQuantity_def Let_def)

lemma reduceInventoryQuantity_missing:
  "findIndex (\<lambda>i. item_id i = ident) (getInventory st) = None \<Longrightarrow>
   reduceInventoryQuantity ident amount st = st"
  by (simp add: reduceInventoryQuantity_def Let_def)

section \<open>Reducing a quantity\<close>

text \<open>
  C2. \<open>reduceInventoryQuantity\<close> is a total function without an error outcome. When no stored
  item has the given id the storage is returned as it was. Otherwise the first item with that
  id (the only one when ids are unique) gets the quantity \<open>max 0 (quantity - amount)\<close>, its
  other fields stay, every other item stays, the collection keeps its length and order, and
  the invoice collection is untouched.
\<close>

theorem reduceInventoryQuantity_spec:
  "(list_all (\<lambda>i. item_id i \<noteq> ident) (getInventory st) \<longrightarrow>
      reduceInventoryQuantity ident amount st = st) \<and>
   (\<not> list_all (\<lambda>i. item_id i \<noteq> ident) (getInventory st) \<longrightarrow>
      (\<exists>k < length (getInventory st).
         item_id (getInventory st ! k) = ident \<and>
         (\<forall>j < k. item_id (getInventory st ! j) \<noteq> ident) \<and>
         length (getInventory (reduceInventoryQuantity ident amount st)) = length (getInventory st) \<and>
         getInventory (reduceInventoryQuantity ident amount st) ! k =
           (getInventory st ! k)
             \<lparr>item_quantity := max 0 (item_quantity (getInventory st ! k) - amount)\<rparr> \<and>
         (\<forall>j < length (getInventory st). j \<noteq> k \<longrightarrow>
            getInventory (reduceInventoryQuantity ident amount st) ! j = getInventory st ! j))) \<and>
   INVOICES_KEY (reduceInventoryQuantity ident amount st) = INVOICES_KEY st"
proof (cases "findIndex (\<lambda>i. item_id i = ident) (getInventory st)")
  case None
  then have "list_all (\<lambda>i. item_id i \<noteq> ident) (getInventory st)"
    by (simp add: findIndex_None_iff)
  with None show ?thesis
    by (simp add: reduceInventoryQuantity_missing)
next
  case (Some k)
  let ?its = "getInventory st"
  from Some have bound: "k < length ?its"
    by (rule findIndex_Some_bound)
  from Some have holds: "item_id (?its ! k) = ident"
    by (rule findIndex_Some_holds)
  from Some have first: "\<forall>j < k. item_id (?its ! j) \<noteq> ident"
    using findIndex_Some_first [of "\<lambda>i. item_id i = ident" ?its k] by blast
  have result: "getInventory (reduceInventoryQuantity ident amount st) =
      ?its[k := (?its ! k)\<lparr>item_quantity := max 0 (item_quantity (?its ! k) - amount)\<rparr>]"
    using Some by (simp add: reduceInventoryQuantity_found getInventory_saveInventory)
  have frame: "INVOICES_KEY (reduceInventoryQuantity ident amount st) = INVOICES_KEY st"
    using Some by (simp add: reduceInventoryQuantity_found INVOICES_KEY_saveInventory)
  have some: "\<not> list_all (\<lambda>i. item_id i \<noteq> ident) ?its"
    using Some findIndex_None_iff [of "\<lambda>i. item_id i = ident" ?its] by simp
  have "\<exists>k < length ?its.
         item_id (?its ! k) = ident \<and>
         (\<forall>j < k. item_id (?its ! j) \<noteq> ident) \<and>
         length (getInventory (reduceInventoryQuantity ident amount st)) = length ?its \<and>
         getInventory (reduceInventoryQuantity ident amount st) ! k =
           (?its ! k)\<lparr>item_quantity := max 0 (item_quantity (?its ! k) - amount)\<rparr> \<and>
         (\<forall>j < length ?its. j \<noteq> k \<longrightarrow>
            getInventory (reduceInventoryQuantity ident amount st) ! j = ?its ! j)"
    using bound holds first result by (intro exI [of _ k]) simp
  with some frame show ?thesis by blast
qed

text \<open>
  The example of the specification: a stock of 3 reduced by 10 becomes 0, the other item
  stays, and an id that no item has leaves the storage as it was.
\<close>

theorem reduceInventoryQuantity_spec_witness:
  "\<not> list_all (\<lambda>i. item_id i \<noteq> ''w1'') (getInventory two_item_storage) \<and>
   getInventory (reduceInventoryQuantity ''w1'' 10 two_item_storage) =
     [gadget, widget\<lparr>item_quantity := 0\<rparr>] \<and>
   list_all (\<lambda>i. item_id i \<noteq> ''zz'') (getInventory two_item_storage) \<and>
   reduceInventoryQuantity ''zz'' 10 two_item_storage = two_item_storage"
  using reduceInventoryQuantity_spec [of "''w1''" two_item_storage 10]
        reduceInventoryQuantity_spec [of "''zz''" two_item_storage 10]
  by (simp add: two_item_storage_def widget_def gadget_def getInventory_def
        reduceInventoryQuantity_def saveInventory_def)

section \<open>The two keys are independent\<close>

lemma getInvoices_saveInvoices: "getInvoices (saveInvoices invs st) = invs"
  by (simp add: getInvoices_def saveInvoices_def)

lemma INVENTORY_KEY_saveInvoices: "INVENTORY_KEY (saveInvoices invs st) = INVENTORY_KEY st"
  by (simp add: saveInvoices_def)

lemma getInventory_saveInvoices: "getInventory (saveInvoices invs st) = getInventory st"
  by (simp add: getInventory_def saveInvoices_def)




section \<open>Deleting an invoice\<close>

text \<open>
  C6. After \<open>deleteInvoice\<close> the invoice collection is the old one without the invoices
  that carry the id, the others in their order; it is the old collection when no invoice
  carries the id. The inventory key is not written: the collection read from it is the same,
  so no quantity is restored.
\<close>

theorem deleteInvoice_frame:
  "getInvoices (deleteInvoice ident st) = filter (\<lambda>inv. inv_id inv \<noteq> ident) (getInvoices st) \<and>
   (list_all (\<lambda>inv. inv_id inv \<noteq> ident) (getInvoices st) \<longrightarrow>
      getInvoices (deleteInvoice ident st) = getInvoices st) \<and>
   INVENTORY_KEY (deleteInvoice ident st) = INVENTORY_KEY st \<and>
   getInventory (deleteInvoice ident st) = getInventory st"
proof -
  have removed: "getInvoices (deleteInvoice ident st) =
      filter (\<lambda>inv. inv_id inv \<noteq> ident) (getInvoices st)"
    by (simp add: deleteInvoice_def getInvoices_saveInvoices)
  have absent: "list_all (\<lambda>inv. inv_id inv \<noteq> ident) (getInvoices st) \<longrightarrow>
      getInvoices (deleteInvoice ident st) = getInvoices st"
    by (simp add: removed list_all_iff)
  have key: "INVENTORY_KEY (deleteInvoice ident st) = INVENTORY_KEY st"
    by (simp add: deleteInvoice_def INVENTORY_KEY_saveInvoices)
  have coll: "getInventory (deleteInvoice ident st) = getInventory st"
    by (simp add: deleteInvoice_def getInventory_saveInvoices)
  from removed absent key coll show ?thesis by blast
qed

text \<open>
  The scenario of the specification: after the sale the widget has 7 units; deleting the
  invoice empties the invoice collection and the widget still has 7 units. Deleting an id
  that no invoice has changes neither collection.
\<close>

theorem deleteInvoice_frame_witness:
  "getInvoices (deleteInvoice ''i1'' acme_storage) = [] \<and>
   map item_quantity (getInventory (deleteInvoice ''i1'' acme_storage)) = [7] \<and>
   list_all (\<lambda>inv. inv_id inv \<noteq> ''i2'') (getInvoices acme_storage) \<and>
   getInvoices (deleteInvoice ''i2'' acme_storage) = [acme_invoice] \<and>
   INVENTORY_KEY (deleteInvoice ''i2'' acme_storage) = INVENTORY_KEY acme_storage"
  using deleteInvoice_frame [of "''i1''" acme_storage]
        deleteInvoice_frame [of "''i2''" acme_storage]
  by (simp add: acme_storage_def acme_invoice_def widget10_def getInvoices_def getInventory_def)

section \<open>Quantities never go below 0\<close>

lemma list_all_list_update: "list_all P xs \<Longrightarrow> P v \<Longrightarrow> list_all P (xs[k := v])"
proof -
  assume a: "list_all P xs" "P v"
  have "set (xs[k := v]) \<subseteq> insert v (set xs)"
    by (rule set_update_subset_insert)
  with a show ?thesis
    by (auto simp: list_all_iff)
qed

lemma quantities_nonneg_saveInventory:
  "quantities_nonneg (saveInventory its st) = list_all (\<lambda>it. 0 \<le> item_quantity it) its"
  by (simp add: quantities_nonneg_def getInventory_saveInventory)

lemma quantities_nonneg_add:
  "quantities_nonneg st \<Longrightarrow> 0 \<le> qty \<Longrightarrow>
   quantities_nonneg (snd (addInventoryItem nm qty pr uuid now st))"
  by (simp add: addInventoryItem_def Let_def quantities_nonneg_saveInventory)
     (simp add: quantities_nonneg_def)

lemma quantities_nonneg_update:
  assumes "quantities_nonneg st"
    and "case upd_quantity updates of Some qty \<Rightarrow> 0 \<le> qty | None \<Rightarrow> True"
  shows "quantities_nonneg (updateInventoryItem ident updates st)"
proof (cases "findIndex (\<lambda>it. item_id it = ident) (getInventory st)")
  case None
  with assms(1) show ?thesis
    by (simp add: updateInventoryItem_def Let_def)
next
  case (Some index)
  from Some have "index < length (getInventory st)"
    by (rule findIndex_Some_bound)
  with assms(1) have "0 \<le> item_quantity (getInventory st ! index)"
    by (simp add: quantities_nonneg_def list_all_length)
  with assms(2) have "0 \<le> item_quantity (merge_updates (getInventory st ! index) updates)"
    by (simp add: merge_updates_def split: option.splits)
  with assms(1) Some show ?thesis
    by (simp add: updateInventoryItem_def Let_def quantities_nonneg_saveInventory
        list_all_list_update quantities_nonneg_def [of st])
qed

lemma quantities_nonneg_delete:
  "quantities_nonneg st \<Longrightarrow> quantities_nonneg (deleteInventoryItem ident st)"
  by (simp add: deleteInventoryItem_def quantities_nonneg_saveInventory)
     (simp add: quantities_nonneg_def list_all_iff)

lemma quantities_nonneg_reduce:
  assumes "quantities_nonneg st"
  shows "quantities_nonneg (reduceInventoryQuantity ident amount st)"
proof (cases "findIndex (\<lambda>i. item_id i = ident) (getInventory st)")
  case None
  with assms show ?thesis
    by (simp add: reduceInventoryQuantity_missing)
next
  case (Some k)
  with assms show ?thesis
    by (simp add: reduceInventoryQuantity_found quantities_nonneg_saveInventory
        list_all_list_update quantities_nonneg_def [of st])
qed

lemma quantities_nonneg_saveInvoices:
  "quantities_nonneg (saveInvoices invs st) = quantities_nonneg st"
  by (simp add: quantities_nonneg_def getInventory_saveInvoices)

lemma quantities_nonneg_foldl_reduce:
  "quantities_nonneg st \<Longrightarrow>
   quantities_nonneg (foldl (\<lambda>s l. reduceInventoryQuantity (itemId l) (quantity l) s) st lines)"
  by (induction lines arbitrary: st) (simp_all add: quantities_nonneg_reduce)

lemma quantities_nonneg_createInvoice:
  "quantities_nonneg st \<Longrightarrow> quantities_nonneg (snd (createInvoice cust lines tot uuid now st))"
  by (simp add: createInvoice_def Let_def quantities_nonneg_foldl_reduce
      quantities_nonneg_saveInvoices)

lemma quantities_nonneg_deleteInvoice:
  "quantities_nonneg st \<Longrightarrow> quantities_nonneg (deleteInvoice ident st)"
  by (simp add: deleteInvoice_def quantities_nonneg_saveInvoices)

lemma quantities_nonneg_apply_operation:
  "quantities_nonneg st \<Longrightarrow> quantity_checked op \<Longrightarrow> quantities_nonneg (apply_operation st op)"
  by (cases op)
     (simp_all add: quantities_nonneg_add quantities_nonneg_update quantities_nonneg_delete
        quantities_nonneg_reduce quantities_nonneg_createInvoice quantities_nonneg_deleteInvoice
        not_less split: option.splits)

lemma quantities_nonneg_foldl_apply:
  "quantities_nonneg st \<Longrightarrow> list_all quantity_checked ops \<Longrightarrow>
   quantities_nonneg (foldl apply_operation st ops)"
  by (induction ops arbitrary: st) (simp_all add: quantities_nonneg_apply_operation)

text \<open>
  C1, as the code has it. No quantity is below 0 in the empty storage, and none gets below 0
  by a sequence of repository calls in which every \<open>add\<close> and \<open>update\<close> is given a
  quantity that is not below 0 (the check of the inventory page). \<open>delete\<close>,
  \<open>reduceQuantity\<close>, invoice creation and invoice deletion keep all quantities at 0 or above
  for every argument.
\<close>

theorem quantities_nonneg_reachable:
  "quantities_nonneg empty_storage \<and>
   (quantities_nonneg st \<and> list_all quantity_checked ops \<longrightarrow>
      quantities_nonneg (foldl apply_operation st ops)) \<and>
   (quantities_nonneg st \<longrightarrow>
      quantities_nonneg (deleteInventoryItem ident st) \<and>
      quantities_nonneg (reduceInventoryQuantity ident amount st) \<and>
      quantities_nonneg (snd (createInvoice cust lines tot uuid now st)) \<and>
      quantities_nonneg (deleteInvoice ident st))"
  by (simp add: quantities_nonneg_foldl_apply quantities_nonneg_delete quantities_nonneg_reduce
      quantities_nonneg_createInvoice quantities_nonneg_deleteInvoice)
     (simp add: quantities_nonneg_def empty_storage_def getInventory_def)

theorem quantities_nonneg_reachable_witness:
  "quantities_nonneg empty_storage \<and> list_all quantity_checked scenario_ops \<and>
   quantities_nonneg (foldl apply_operation empty_storage scenario_ops) \<and>
   map item_quantity (getInventory (foldl apply_operation empty_storage (take 4 scenario_ops))) = [2] \<and>
   map item_quantity (getInventory (foldl apply_operation empty_storage scenario_ops)) = [0]"
  using quantities_nonneg_reachable [of empty_storage scenario_ops]
  by (simp add: scenario_ops_def widget_line_def empty_storage_def getInventory_def
      getInvoices_def addInventoryItem_def saveInventory_def saveInvoices_def createInvoice_def
      deleteInvoice_def reduceInventoryQuantity_def updateInventoryItem_def merge_updates_def
      quantities_nonneg_def Let_def)

text \<open>
  \<open>addInventoryItem\<close> and \<open>updateInventoryItem\<close> store the quantity they are given: a
  negative one ends up in the collection.
\<close>

theorem quantities_nonneg_counterexample:
  "quantities_nonneg empty_storage \<and>
   \<not> quantities_nonneg (apply_operation empty_storage (Add ''Widget'' (- 1) 50 ''w1'' 0)) \<and>
   quantities_nonneg two_item_storage \<and>
   \<not> quantities_nonneg
       (apply_operation two_item_storage
          (Update ''w1'' \<lparr>upd_id = None, upd_name = None, upd_quantity = Some (- 5),
                          upd_price = None, upd_createdAt = None\<rparr>))"
  by (simp add: quantities_nonneg_def empty_storage_def two_item_storage_def widget_def
      gadget_def getInventory_def addInventoryItem_def updateInventoryItem_def merge_updates_def
      saveInventory_def Let_def)

section \<open>The submit handler and \<open>createInvoice\<close>\<close>















section \<open>Totals of a created invoice\<close>



section \<open>The states of \<open>createInvoice\<close>\<close>






section \<open>The order of the steps of invoice creation\<close>



section \<open>Validation\<close>











section \<open>The top selling product\<close>

lemma collect_sales_foldl:
  "foldl (\<lambda>ps inv. foldl record_line ps (items inv)) ps0 invoices =
   foldl record_line ps0 (concat (map items invoices))"
  by (induction invoices arbitrary: ps0) simp_all

lemma collect_sales_concat:
  "collect_sales invoices = foldl record_line [] (concat (map items invoices))"
  by (simp add: collect_sales_def collect_sales_foldl)

lemma add_quantity_new:
  "key \<notin> fst ` set ps \<Longrightarrow>
   add_quantity key q (ps @ [(key, p)]) = ps @ [(key, p\<lparr>sale_quantity := sale_quantity p + q\<rparr>)]"
  by (induction ps) auto

lemma add_quantity_map:
  "distinct (map fst ps) \<Longrightarrow>
   add_quantity key q ps =
   map (\<lambda>(k, p). if k = key then (k, p\<lparr>sale_quantity := sale_quantity p + q\<rparr>) else (k, p)) ps"
proof (induction ps)
  case Nil
  then show ?case by simp
next
  case (Cons kp ps)
  obtain k p where kp: "kp = (k, p)" by (cases kp)
  show ?case
  proof (cases "k = key")
    case True
    with Cons.prems kp have "key \<notin> fst ` set ps" by simp
    then have "map (\<lambda>(k, p). if k = key then (k, p\<lparr>sale_quantity := sale_quantity p + q\<rparr>)
        else (k, p)) ps = ps"
      by (induction ps) auto
    with True kp show ?thesis by simp
  next
    case False
    with Cons kp show ?thesis by simp
  qed
qed

lemma record_line_seen:
  "map_of ps (itemId l) \<noteq> None \<Longrightarrow>
   record_line ps l = add_quantity (itemId l) (quantity l) ps"
  by (auto simp: record_line_def)

lemma record_line_unseen:
  "map_of ps (itemId l) = None \<Longrightarrow>
   record_line ps l =
   add_quantity (itemId l) (quantity l)
     (ps @ [(itemId l, \<lparr>sale_name = itemName l, sale_quantity = 0\<rparr>)])"
  by (simp add: record_line_def)

lemma find_snoc:
  "find P (xs @ [x]) = (case find P xs of Some y \<Rightarrow> Some y | None \<Rightarrow> if P x then Some x else None)"
  by (induction xs) simp_all

lemma find_None_filter: "find P xs = None \<longleftrightarrow> filter P xs = []"
  by (induction xs) simp_all

lemma record_lines_invariant:
  "map fst (foldl record_line [] ls) = rev (remdups (rev (map itemId ls))) \<and>
   (\<forall>(k, p) \<in> set (foldl record_line [] ls).
      sale_quantity p = sum_list (map quantity (filter (\<lambda>l. itemId l = k) ls)) \<and>
      (\<exists>l. find (\<lambda>l. itemId l = k) ls = Some l \<and> sale_name p = itemName l))"
proof (induction ls rule: rev_induct)
  case Nil
  then show ?case by simp
next
  case (snoc l ls)
  let ?ps = "foldl record_line [] ls"
  let ?k = "itemId l"
  from snoc have keys: "map fst ?ps = rev (remdups (rev (map itemId ls)))"
    by blast
  from snoc have vals: "\<And>k p. (k, p) \<in> set ?ps \<Longrightarrow>
      sale_quantity p = sum_list (map quantity (filter (\<lambda>l. itemId l = k) ls)) \<and>
      (\<exists>l. find (\<lambda>l. itemId l = k) ls = Some l \<and> sale_name p = itemName l)"
    by blast
  have dist: "distinct (map fst ?ps)"
    by (simp add: keys)
  have keyset: "fst ` set ?ps = itemId ` set ls"
    using arg_cong [OF keys, of set] by simp
  show ?case
  proof (cases "?k \<in> itemId ` set ls")
    case False
    then have none: "map_of ?ps ?k = None"
      by (simp add: map_of_eq_None_iff keyset)
    from False have nokey: "?k \<notin> fst ` set ?ps"
      by (simp add: keyset)
    have step: "record_line ?ps l =
        ?ps @ [(?k, \<lparr>sale_name = itemName l, sale_quantity = quantity l\<rparr>)]"
      by (simp add: record_line_unseen [OF none] add_quantity_new [OF nokey])
    from False have empty: "filter (\<lambda>l'. itemId l' = ?k) ls = []"
      by (auto simp: filter_empty_conv image_iff)
    then have notfound: "find (\<lambda>l'. itemId l' = ?k) ls = None"
      by (simp add: find_None_filter)
    have keys': "map fst (foldl record_line [] (ls @ [l])) =
        rev (remdups (rev (map itemId (ls @ [l]))))"
      using False by (simp add: step keys)
    have vals': "sale_quantity p = sum_list (map quantity (filter (\<lambda>l. itemId l = k) (ls @ [l]))) \<and>
        (\<exists>l'. find (\<lambda>l. itemId l = k) (ls @ [l]) = Some l' \<and> sale_name p = itemName l')"
      if "(k, p) \<in> set (foldl record_line [] (ls @ [l]))" for k p
    proof (cases "(k, p) \<in> set ?ps")
      case True
      with nokey have "k \<noteq> ?k" by force
      with vals [OF True] show ?thesis
        by (auto simp: find_snoc)
    next
      case False
      with that step have "k = ?k" "p = \<lparr>sale_name = itemName l, sale_quantity = quantity l\<rparr>"
        by auto
      then show ?thesis
        by (simp add: empty find_snoc notfound)
    qed
    from keys' vals' show ?thesis by blast
  next
    case True
    then have some: "map_of ?ps ?k \<noteq> None"
      by (simp add: map_of_eq_None_iff keyset)
    have step: "record_line ?ps l =
        map (\<lambda>(k, p). if k = ?k then (k, p\<lparr>sale_quantity := sale_quantity p + quantity l\<rparr>)
                       else (k, p)) ?ps"
      by (simp only: record_line_seen [OF some] add_quantity_map [OF dist])
    have keys': "map fst (foldl record_line [] (ls @ [l])) =
        rev (remdups (rev (map itemId (ls @ [l]))))"
    proof -
      have "map fst (record_line ?ps l) = map fst ?ps"
        unfolding step by (induction ?ps) auto
      with True show ?thesis by (simp add: keys)
    qed
    have vals': "sale_quantity p = sum_list (map quantity (filter (\<lambda>l. itemId l = k) (ls @ [l]))) \<and>
        (\<exists>l'. find (\<lambda>l. itemId l = k) (ls @ [l]) = Some l' \<and> sale_name p = itemName l')"
      if "(k, p) \<in> set (foldl record_line [] (ls @ [l]))" for k p
    proof -
      from that step obtain p0 where p0: "(k, p0) \<in> set ?ps"
        "p = (if k = ?k then p0\<lparr>sale_quantity := sale_quantity p0 + quantity l\<rparr> else p0)"
        by (auto split: if_splits)
      from vals [OF p0(1)] p0(2) show ?thesis
        by (auto simp: find_snoc)
    qed
    from keys' vals' show ?thesis by blast
  qed
qed

lemma top_fold:
  "\<exists>before after.
     first # others =
       before @ foldl (\<lambda>top product.
           if sale_quantity product > sale_quantity top then product else top) first others
         # after \<and>
     (\<forall>q \<in> set before.
        sale_quantity q < sale_quantity (foldl (\<lambda>top product.
           if sale_quantity product > sale_quantity top then product else top) first others)) \<and>
     (\<forall>q \<in> set after.
        sale_quantity q \<le> sale_quantity (foldl (\<lambda>top product.
           if sale_quantity product > sale_quantity top then product else top) first others))"
proof (induction others rule: rev_induct)
  case Nil
  show ?case by (intro exI [of _ "[]"]) simp
next
  case (snoc x xs)
  let ?f = "\<lambda>top product. if sale_quantity product > sale_quantity top then product else top"
  let ?r = "foldl ?f first xs"
  from snoc obtain before after where split: "first # xs = before @ ?r # after"
    and less: "\<forall>q \<in> set before. sale_quantity q < sale_quantity ?r"
    and le: "\<forall>q \<in> set after. sale_quantity q \<le> sale_quantity ?r"
    by blast
  show ?case
  proof (cases "sale_quantity x > sale_quantity ?r")
    case True
    then have res: "foldl ?f first (xs @ [x]) = x" by simp
    from split have "first # xs @ [x] = (before @ ?r # after) @ x # []" by simp
    moreover from less le True
    have "\<forall>q \<in> set (before @ ?r # after). sale_quantity q < sale_quantity x"
      by fastforce
    ultimately show ?thesis
      unfolding res by (intro exI [of _ "before @ ?r # after"] exI [of _ "[]"]) simp
  next
    case False
    then have res: "foldl ?f first (xs @ [x]) = ?r" by simp
    from split have "first # xs @ [x] = before @ ?r # (after @ [x])" by simp
    moreover from le False
    have "\<forall>q \<in> set (after @ [x]). sale_quantity q \<le> sale_quantity ?r"
      by fastforce
    ultimately show ?thesis
      unfolding res using less by (intro exI [of _ before] exI [of _ "after @ [x]"]) simp
  qed
qed

lemma getTopSellingProduct_None:
  "getTopSellingProduct st = None \<longleftrightarrow> collect_sales (getInvoices st) = []"
  by (cases "collect_sales (getInvoices st)") (simp_all add: getTopSellingProduct_def Let_def)

lemma getTopSellingProduct_Some:
  assumes "collect_sales (getInvoices st) \<noteq> []"
  shows "\<exists>before p after.
     map snd (collect_sales (getInvoices st)) = before @ p # after \<and>
     getTopSellingProduct st = Some p \<and>
     (\<forall>q \<in> set before. sale_quantity q < sale_quantity p) \<and>
     (\<forall>q \<in> set after. sale_quantity q \<le> sale_quantity p)"
proof -
  let ?ps = "collect_sales (getInvoices st)"
  from assms obtain first others where products: "map snd ?ps = first # others"
    by (cases "map snd ?ps") auto
  let ?f = "\<lambda>top product. if sale_quantity product > sale_quantity top then product else top"
  have top: "getTopSellingProduct st = Some (foldl ?f first others)"
    by (simp add: getTopSellingProduct_def Let_def products)
  from top_fold [of first others] top show ?thesis
    unfolding products by blast
qed

lemma collect_sales_empty_iff:
  "collect_sales invoices = [] \<longleftrightarrow> concat (map items invoices) = []"
proof -
  have "map fst (collect_sales invoices) =
      rev (remdups (rev (map itemId (concat (map items invoices)))))"
    using record_lines_invariant [of "concat (map items invoices)"]
    by (simp only: collect_sales_concat)
  then have "collect_sales invoices = [] \<longleftrightarrow>
      rev (remdups (rev (map itemId (concat (map items invoices))))) = []"
    by (metis map_is_Nil_conv)
  also have "\<dots> \<longleftrightarrow> concat (map items invoices) = []"
    by (metis rev_is_Nil_conv remdups_eq_nil_iff map_is_Nil_conv)
  finally show ?thesis .
qed

text \<open>
  C8. Let the lines be the lines of all stored invoices, in order. The sales table has one
  entry per distinct item id of the lines, in the order in which the ids are first seen;
  the quantity of an entry is the sum of the quantities of the lines with its id, and its
  name is the item name of the first such line. \<open>getTopSellingProduct\<close> returns nothing when
  there is no invoice, and exactly when there is no line at all. Otherwise it returns an
  entry of the table such that every entry before it has a strictly smaller quantity and
  every entry after it has at most its quantity: the maximum, and among equals the one seen
  first.
\<close>

theorem getTopSellingProduct_spec:
  fixes st :: storage
  defines "lines \<equiv> concat (map items (getInvoices st))"
    and "sales \<equiv> collect_sales (getInvoices st)"
  shows "map fst sales = rev (remdups (rev (map itemId lines))) \<and>
    (\<forall>(k, p) \<in> set sales.
       sale_quantity p = sum_list (map quantity (filter (\<lambda>l. itemId l = k) lines)) \<and>
       (\<exists>l. find (\<lambda>l. itemId l = k) lines = Some l \<and> sale_name p = itemName l)) \<and>
    (getInvoices st = [] \<longrightarrow> getTopSellingProduct st = None) \<and>
    (getTopSellingProduct st = None \<longleftrightarrow> lines = []) \<and>
    (lines \<noteq> [] \<longrightarrow>
       (\<exists>before p after.
          map snd sales = before @ p # after \<and>
          getTopSellingProduct st = Some p \<and>
          (\<forall>q \<in> set before. sale_quantity q < sale_quantity p) \<and>
          (\<forall>q \<in> set after. sale_quantity q \<le> sale_quantity p)))"
proof -
  have inv: "map fst sales = rev (remdups (rev (map itemId lines))) \<and>
    (\<forall>(k, p) \<in> set sales.
       sale_quantity p = sum_list (map quantity (filter (\<lambda>l. itemId l = k) lines)) \<and>
       (\<exists>l. find (\<lambda>l. itemId l = k) lines = Some l \<and> sale_name p = itemName l))"
    unfolding sales_def lines_def collect_sales_concat by (rule record_lines_invariant)
  have none: "getTopSellingProduct st = None \<longleftrightarrow> lines = []"
    unfolding lines_def by (simp only: getTopSellingProduct_None collect_sales_empty_iff)
  have empty: "getInvoices st = [] \<longrightarrow> getTopSellingProduct st = None"
    by (simp add: none lines_def)
  have top: "lines \<noteq> [] \<longrightarrow>
       (\<exists>before p after.
          map snd sales = before @ p # after \<and>
          getTopSellingProduct st = Some p \<and>
          (\<forall>q \<in> set before. sale_quantity q < sale_quantity p) \<and>
          (\<forall>q \<in> set after. sale_quantity q \<le> sale_quantity p))"
  proof
    assume "lines \<noteq> []"
    then have "collect_sales (getInvoices st) \<noteq> []"
      by (simp add: collect_sales_empty_iff lines_def)
    then show "\<exists>before p after.
          map snd sales = before @ p # after \<and>
          getTopSellingProduct st = Some p \<and>
          (\<forall>q \<in> set before. sale_quantity q < sale_quantity p) \<and>
          (\<forall>q \<in> set after. sale_quantity q \<le> sale_quantity p)"
      unfolding sales_def by (rule getTopSellingProduct_Some)
  qed
  from inv none empty top show ?thesis by blast
qed

text \<open>
  The tie of the specification: widget and gadget both sold 5 times, the widget recorded
  first and reported; no invoices, no product.
\<close>

theorem getTopSellingProduct_spec_witness:
  "concat (map items (getInvoices tie_storage)) \<noteq> [] \<and>
   map snd (collect_sales (getInvoices tie_storage)) =
     [\<lparr>sale_name = ''Widget'', sale_quantity = 5\<rparr>, \<lparr>sale_name = ''Gadget'', sale_quantity = 5\<rparr>] \<and>
   getTopSellingProduct tie_storage = Some \<lparr>sale_name = ''Widget'', sale_quantity = 5\<rparr> \<and>
   getInvoices empty_storage = [] \<and>
   getTopSellingProduct empty_storage = None"
  using getTopSellingProduct_spec [of tie_storage] getTopSellingProduct_spec [of empty_storage]
  by (simp add: tie_storage_def empty_storage_def getInvoices_def getTopSellingProduct_def
      collect_sales_def record_line_def Let_def)

section \<open>Weekly sales\<close>

lemma foldl_inv_total:
  "foldl (\<lambda>sum inv. sum + inv_total inv) a invs = a + sum_list (map inv_total invs)"
  by (induction invs arbitrary: a) (simp_all add: add.assoc)

text \<open>
  C7, as the code has it. With \<open>now\<close> the time of the call, \<open>getThisWeekSales\<close> is the sum
  of the totals of exactly the invoices created at or after \<open>now\<close> minus 7 days
  (604800000 ms), with no upper bound; \<open>getLastWeekSales\<close> is the sum of the totals of
  exactly the invoices created in the half-open interval from \<open>now\<close> minus 14 days to
  \<open>now\<close> minus 7 days. When every stored invoice was created before \<open>now\<close>, the first sum
  is the sum over the half-open interval from \<open>now\<close> minus 7 days to \<open>now\<close>.
\<close>

theorem week_windows:
  "getThisWeekSales now st =
     sum_list (map inv_total
       (filter (\<lambda>inv. now - 604800000 \<le> inv_createdAt inv) (getInvoices st))) \<and>
   getLastWeekSales now st =
     sum_list (map inv_total
       (filter (\<lambda>inv. now - 1209600000 \<le> inv_createdAt inv \<and> inv_createdAt inv < now - 604800000)
          (getInvoices st))) \<and>
   (list_all (\<lambda>inv. inv_createdAt inv < now) (getInvoices st) \<longrightarrow>
      getThisWeekSales now st =
        sum_list (map inv_total
          (filter (\<lambda>inv. now - 604800000 \<le> inv_createdAt inv \<and> inv_createdAt inv < now)
             (getInvoices st))))"
proof -
  have this_week: "getThisWeekSales now st =
     sum_list (map inv_total
       (filter (\<lambda>inv. now - 604800000 \<le> inv_createdAt inv) (getInvoices st)))"
    by (simp add: getThisWeekSales_def Let_def foldl_inv_total)
  have last_week: "getLastWeekSales now st =
     sum_list (map inv_total
       (filter (\<lambda>inv. now - 1209600000 \<le> inv_createdAt inv \<and> inv_createdAt inv < now - 604800000)
          (getInvoices st)))"
    by (simp add: getLastWeekSales_def Let_def foldl_inv_total)
  have "filter (\<lambda>inv. now - 604800000 \<le> inv_createdAt inv) (getInvoices st) =
      filter (\<lambda>inv. now - 604800000 \<le> inv_createdAt inv \<and> inv_createdAt inv < now)
        (getInvoices st)"
    if "list_all (\<lambda>inv. inv_createdAt inv < now) (getInvoices st)"
    using that by (intro filter_cong) (auto simp: list_all_iff)
  with this_week last_week show ?thesis by simp
qed

theorem week_windows_witness:
  "list_all (\<lambda>inv. inv_createdAt inv < 6) (getInvoices acme_storage) \<and>
   getThisWeekSales 6 acme_storage = 150 \<and>
   getLastWeekSales 6 acme_storage = 0 \<and>
   getThisWeekSales 604800006 acme_storage = 0 \<and>
   getLastWeekSales 604800006 acme_storage = 150"
  using week_windows [of 6 acme_storage] week_windows [of 604800006 acme_storage]
  by (simp add: acme_storage_def acme_invoice_def getInvoices_def getThisWeekSales_def
      getLastWeekSales_def Let_def)

text \<open>
  An invoice created at the very millisecond of the call is outside the interval that ends
  before \<open>now\<close>, and \<open>getThisWeekSales\<close> counts its total.
\<close>

theorem week_windows_counterexample:
  "getInvoices acme_storage = [acme_invoice] \<and>
   \<not> inv_createdAt acme_invoice < 5 \<and>
   getThisWeekSales 5 acme_storage = 150"
  by (simp add: acme_storage_def acme_invoice_def getInvoices_def getThisWeekSales_def Let_def)

section \<open>Insights\<close>

text \<open>
  C10. For every storage, every clock reading and every calendar, \<open>generateInsights\<close>
  returns at least one insight; the welcome message is in the result exactly when it is the
  whole result, that is, when no other rule produced an insight.
\<close>

theorem generateInsights_nonempty:
  "generateInsights toDateString now1 now2 now3 st \<noteq> [] \<and>
   (Welcome \<in> set (generateInsights toDateString now1 now2 now3 st) \<longleftrightarrow>
    generateInsights toDateString now1 now2 now3 st = [Welcome])"
  by (auto simp: generateInsights_def Let_def split: option.splits)

theorem generateInsights_nonempty_witness:
  "generateInsights (\<lambda>t. ''Thu Jan 01 1970'') 6 6 6 acme_storage =
     [Steady_Sales, Sales_Today 150] \<and>
   generateInsights (\<lambda>t. ''Thu Jan 01 1970'') 6 6 6 tie_storage =
     [Steady_Sales, Low_Stock_Alert ''Widget'' None, Best_Seller ''Widget'' 5, Sales_Today 350] \<and>
   generateInsights (\<lambda>t. ''Thu Jan 01 1970'') 6 6 6 empty_storage = [Welcome]"
  using generateInsights_nonempty [of "\<lambda>t. ''Thu Jan 01 1970''" 6 6 6 acme_storage]
  by (simp add: generateInsights_def acme_storage_def acme_invoice_def tie_storage_def
      empty_storage_def widget10_def widget_def gadget_def widget_line_def
      getInventory_def getInvoices_def getThisWeekSales_def
      getLastWeekSales_def getTodaySales_def getLowStockItems_def getTopSellingProduct_def
      collect_sales_def record_line_def Let_def)

text \<open>
  C9. When the inventory collection and the invoice collection are both empty (their keys
  unwritten or holding the empty array), \<open>generateInsights\<close> returns the welcome message
  and nothing else: both weekly sums and today's sum are 0, there is no low-stock item and
  no top product.
\<close>

theorem generateInsights_empty:
  assumes "getInventory st = []" and "getInvoices st = []"
  shows "generateInsights toDateString now1 now2 now3 st = [Welcome]"
proof -
  from assms(2) have this_week: "getThisWeekSales now1 st = 0"
    by (simp add: getThisWeekSales_def Let_def)
  from assms(2) have last_week: "getLastWeekSales now2 st = 0"
    by (simp add: getLastWeekSales_def Let_def)
  from assms(2) have today: "getTodaySales toDateString now3 st = 0"
    by (simp add: getTodaySales_def Let_def)
  from assms(1) have low: "getLowStockItems st = []"
    by (simp add: getLowStockItems_def)
  from assms(2) have top: "getTopSellingProduct st = None"
    by (simp add: getTopSellingProduct_def collect_sales_def Let_def)
  show ?thesis
    by (simp add: generateInsights_def this_week last_week today low top)
qed

theorem generateInsights_empty_witness:
  "getInventory empty_storage = [] \<and> getInvoices empty_storage = [] \<and>
   generateInsights (\<lambda>t. ''Thu Jan 01 1970'') 0 0 0 empty_storage = [Welcome] \<and>
   generateInsights (\<lambda>t. ''Thu Jan 01 1970'') 0 0 0
     \<lparr>INVENTORY_KEY = Some [], INVOICES_KEY = Some []\<rparr> = [Welcome]"
  using generateInsights_empty [of empty_storage "\<lambda>t. ''Thu Jan 01 1970''" 0 0 0]
    generateInsights_empty [of "\<lparr>INVENTORY_KEY = Some [], INVOICES_KEY = Some []\<rparr>"
      "\<lambda>t. ''Thu Jan 01 1970''" 0 0 0]
  by (simp add: empty_storage_def getInventory_def getInvoices_def)

end
